theory Spec2Isabelle
  imports Main
begin

section \<open>Shortcut names\<close>

text \<open>
  Both entry points derive the name of the shortcut with the same two lines
  (\<^verbatim>\<open>useDragAndDrop.ts\<close> 185-189 and \<^verbatim>\<open>processFile\<close> 670-673):
  \<^verbatim>\<open>
    let shortcutName = pathInfo.file_name;
    if (!isDirectory && shortcutName.includes('.')) {
      shortcutName = shortcutName.replace(/\.[^/.]+$/, '');
    }
  \<close>
  The regular expression is a dot, then one or more characters that are neither a slash
  nor a dot, then the end of the input. \<^verbatim>\<open>replace\<close> with a regular expression that has
  no \<^verbatim>\<open>g\<close> flag rewrites the leftmost match only: the engine tries the start positions
  from left to right, and at a position the pattern matches exactly when the character
  there is a dot and the rest of the string is not empty and free of dots and slashes.
  The replacement is the empty string, and the match reaches the end of the input, so
  the result is the text before the match.
\<close>

fun replace_extension :: "string \<Rightarrow> string" where
  "replace_extension [] = []"
| "replace_extension (c # cs) =
     (if c = CHR ''.'' \<and> cs \<noteq> [] \<and> list_all (\<lambda>d. d \<noteq> CHR ''/'' \<and> d \<noteq> CHR ''.'') cs
      then []
      else c # replace_extension cs)"

definition shortcutName :: "string \<Rightarrow> bool \<Rightarrow> string" where
  "shortcutName file_name isDirectory =
     (if \<not> isDirectory \<and> CHR ''.'' \<in> set file_name
      then replace_extension file_name
      else file_name)"

text \<open>
  The words of the specification, for comparison: the final extension segment of a name
  is its last dot and all the text after it. \<open>after_last_dot\<close> is the text after the
  last dot, \<open>drop_final_segment\<close> the name without its final segment.
\<close>

definition after_last_dot :: "string \<Rightarrow> string" where
  "after_last_dot s = rev (takeWhile (\<lambda>c. c \<noteq> CHR ''.'') (rev s))"

definition drop_final_segment :: "string \<Rightarrow> string" where
  "drop_final_segment s = rev (drop 1 (dropWhile (\<lambda>c. c \<noteq> CHR ''.'') (rev s)))"

section \<open>The collaborators\<close>

text \<open>
  The data service is a thin asynchronous wrapper around the native back end. Each
  call may reject, which an \<^verbatim>\<open>await\<close> turns into a thrown value, and may change the
  world outside the component (the store of shortcuts, the icon cache). A call is
  therefore a function from the world to a result and the new world. A thrown value is
  an \<^verbatim>\<open>Error\<close> object with its message, or anything else.
\<close>

datatype thrown = JsError string | NonError

record path_info =
  file_name :: string
  is_directory :: bool

record icon_result =
  icon_data :: string
  icon_type :: string

record create_shortcut_request =
  name_r :: string
  file_path :: string
  icon_path :: "string option"
  category_id :: string

record 'w dataService =
  getPathInfo :: "string \<Rightarrow> 'w \<Rightarrow> (thrown + path_info) \<times> 'w"
  validateFilePath :: "string \<Rightarrow> 'w \<Rightarrow> (thrown + bool) \<times> 'w"
  validateDirectoryPath :: "string \<Rightarrow> 'w \<Rightarrow> (thrown + bool) \<times> 'w"
  checkFileExists :: "string \<Rightarrow> 'w \<Rightarrow> (thrown + bool) \<times> 'w"
  getFileIcon :: "string \<Rightarrow> bool \<Rightarrow> 'w \<Rightarrow> (thrown + icon_result option) \<times> 'w"
  getDirectoryIcon :: "string \<Rightarrow> bool \<Rightarrow> 'w \<Rightarrow> (thrown + icon_result option) \<times> 'w"
  createShortcut :: "create_shortcut_request \<Rightarrow> 'w \<Rightarrow> (thrown + unit) \<times> 'w"

text \<open>
  The notifications of the \<^verbatim>\<open>sonner\<close> toaster. The source's messages are Chinese
  text; each constructor stands for one message template and carries the values the
  template interpolates.
\<close>

datatype toast =
    NoFilesDetected
  | InvalidFilePath
  | PathInvalid string
  | NotExists bool string
  | AddFailed string
  | AddedCount nat
  | FailedCount nat
  | DropFailed
  | CannotGetPathInfo string
  | PleaseAddFiles
  | BatchDone nat nat

text \<open>
  What the two components have in common: the \<^verbatim>\<open>isProcessing\<close> React state, the toasts
  shown so far, and the world the collaborators act on.
\<close>

record 'w component =
  isProcessing :: bool
  toasts :: "toast list"
  world :: 'w

record counters =
  successCount :: nat
  errorCount :: nat

section \<open>The automatic path: \<^verbatim>\<open>useDragAndDrop\<close>\<close>

text \<open>
  \<open>dragLog\<close> keeps two of the entries \<^verbatim>\<open>logDragEvent\<close> writes: the entry at the head
  of every iteration of the loop (line 99) and the entry with the totals after the loop
  (line 239). The other log lines, and \<^verbatim>\<open>console.log\<close>, are not modelled.
\<close>

datatype drag_event = ProcessingItem string | BatchFinished nat nat nat

record 'w hook_state = "'w component" +
  isDragOver :: bool
  isProcessingRef :: bool
  dragLog :: "drag_event list"

text \<open>
  Lines 160-182: the icon of the dropped path. A rejected call is caught and leaves
  \<^verbatim>\<open>iconPath\<close> undefined, as does an empty result or empty icon data.
\<close>

definition hookIconPath ::
  "'w dataService \<Rightarrow> bool \<Rightarrow> string \<Rightarrow> 'w \<Rightarrow> string option \<times> 'w" where
  "hookIconPath ds isDirectory filePath w =
     (case (if isDirectory then getDirectoryIcon ds filePath True w
            else getFileIcon ds filePath True w) of
        (Inl e, w') \<Rightarrow> (None, w')
      | (Inr None, w') \<Rightarrow> (None, w')
      | (Inr (Some iconResult), w') \<Rightarrow>
          (if icon_data iconResult \<noteq> [] then Some (icon_data iconResult) else None, w'))"

text \<open>
  Lines 111-226: the body of the inner \<^verbatim>\<open>try\<close> for one path. The result is \<open>Inl\<close>
  when a statement of the block throws, with the counters and the state as they are at
  that point. A \<^verbatim>\<open>continue\<close> leaves the block normally. The callback \<^verbatim>\<open>onFileAdded\<close> is
  optional, and it is called inside the block, after \<^verbatim>\<open>successCount++\<close>.
\<close>

definition dropItemTry ::
  "'w dataService \<Rightarrow> string \<Rightarrow> (string \<Rightarrow> 'w \<Rightarrow> (thrown + unit) \<times> 'w) option \<Rightarrow>
   string \<Rightarrow> counters \<Rightarrow> 'w hook_state \<Rightarrow> (thrown + unit) \<times> counters \<times> 'w hook_state" where
  "dropItemTry ds categoryId onFileAdded filePath cnt st =
    (case getPathInfo ds filePath (world st) of
       (Inl e, w1) \<Rightarrow> (Inl e, cnt, st\<lparr>world := w1\<rparr>)
     | (Inr pathInfo, w1) \<Rightarrow>
    (case (if is_directory pathInfo then validateDirectoryPath ds filePath w1
           else validateFilePath ds filePath w1) of
       (Inl e, w2) \<Rightarrow> (Inl e, cnt, st\<lparr>world := w2\<rparr>)
     | (Inr isValid, w2) \<Rightarrow>
    if \<not> isValid
    then (Inr (), cnt\<lparr>errorCount := errorCount cnt + 1\<rparr>,
          st\<lparr>world := w2, toasts := toasts st @ [PathInvalid (file_name pathInfo)]\<rparr>)
    else
    (case checkFileExists ds filePath w2 of
       (Inl e, w3) \<Rightarrow> (Inl e, cnt, st\<lparr>world := w3\<rparr>)
     | (Inr exists, w3) \<Rightarrow>
    if \<not> exists
    then (Inr (), cnt\<lparr>errorCount := errorCount cnt + 1\<rparr>,
          st\<lparr>world := w3,
             toasts := toasts st @ [NotExists (is_directory pathInfo) (file_name pathInfo)]\<rparr>)
    else
    (case hookIconPath ds (is_directory pathInfo) filePath w3 of
       (iconPath, w4) \<Rightarrow>
    (case createShortcut ds
            \<lparr>name_r = shortcutName (file_name pathInfo) (is_directory pathInfo),
             file_path = filePath, icon_path = iconPath, category_id = categoryId\<rparr> w4 of
       (Inl e, w5) \<Rightarrow> (Inl e, cnt, st\<lparr>world := w5\<rparr>)
     | (Inr u, w5) \<Rightarrow>
    (case onFileAdded of
       None \<Rightarrow> (Inr (), cnt\<lparr>successCount := successCount cnt + 1\<rparr>, st\<lparr>world := w5\<rparr>)
     | Some callback \<Rightarrow>
        (case callback filePath w5 of
           (Inl e, w6) \<Rightarrow>
             (Inl e, cnt\<lparr>successCount := successCount cnt + 1\<rparr>, st\<lparr>world := w6\<rparr>)
         | (Inr u', w6) \<Rightarrow>
             (Inr (), cnt\<lparr>successCount := successCount cnt + 1\<rparr>, st\<lparr>world := w6\<rparr>))))))))"

text \<open>
  Lines 98-236: one iteration of the loop. The log entry comes first; an empty path
  is counted as an error before the \<^verbatim>\<open>try\<close>; the \<^verbatim>\<open>catch\<close> of the inner \<^verbatim>\<open>try\<close> shows a
  toast and counts an error.
\<close>

definition dropItem ::
  "'w dataService \<Rightarrow> string \<Rightarrow> (string \<Rightarrow> 'w \<Rightarrow> (thrown + unit) \<times> 'w) option \<Rightarrow>
   string \<Rightarrow> counters \<Rightarrow> 'w hook_state \<Rightarrow> counters \<times> 'w hook_state" where
  "dropItem ds categoryId onFileAdded filePath cnt st =
    (let st0 = st\<lparr>dragLog := dragLog st @ [ProcessingItem filePath]\<rparr> in
     if filePath = []
     then (cnt\<lparr>errorCount := errorCount cnt + 1\<rparr>,
           st0\<lparr>toasts := toasts st0 @ [InvalidFilePath]\<rparr>)
     else
       (case dropItemTry ds categoryId onFileAdded filePath cnt st0 of
          (Inr u, cnt', st1) \<Rightarrow> (cnt', st1)
        | (Inl e, cnt', st1) \<Rightarrow>
            (cnt'\<lparr>errorCount := errorCount cnt' + 1\<rparr>,
             st1\<lparr>toasts := toasts st1 @ [AddFailed filePath]\<rparr>)))"

text \<open>The \<^verbatim>\<open>for (const filePath of filePaths)\<close> loop.\<close>

fun dropLoop ::
  "'w dataService \<Rightarrow> string \<Rightarrow> (string \<Rightarrow> 'w \<Rightarrow> (thrown + unit) \<times> 'w) option \<Rightarrow>
   string list \<Rightarrow> counters \<Rightarrow> 'w hook_state \<Rightarrow> counters \<times> 'w hook_state" where
  "dropLoop ds categoryId onFileAdded [] cnt st = (cnt, st)"
| "dropLoop ds categoryId onFileAdded (filePath # rest) cnt st =
     (case dropItem ds categoryId onFileAdded filePath cnt st of
        (cnt', st') \<Rightarrow> dropLoop ds categoryId onFileAdded rest cnt' st')"

text \<open>
  Lines 94-250: the counters, the loop, the log entry with the totals and the two
  aggregate toasts.
\<close>

definition dropBatch ::
  "'w dataService \<Rightarrow> string \<Rightarrow> (string \<Rightarrow> 'w \<Rightarrow> (thrown + unit) \<times> 'w) option \<Rightarrow>
   string list \<Rightarrow> 'w hook_state \<Rightarrow> 'w hook_state" where
  "dropBatch ds categoryId onFileAdded filePaths st =
    (case dropLoop ds categoryId onFileAdded filePaths
            \<lparr>successCount = 0, errorCount = 0\<rparr> st of
       (cnt, st1) \<Rightarrow>
         (let st2 = st1\<lparr>dragLog := dragLog st1 @
                       [BatchFinished (successCount cnt) (errorCount cnt) (length filePaths)]\<rparr>;
              st3 = (if successCount cnt > 0
                     then st2\<lparr>toasts := toasts st2 @ [AddedCount (successCount cnt)]\<rparr>
                     else st2)
          in if errorCount cnt > 0
             then st3\<lparr>toasts := toasts st3 @ [FailedCount (errorCount cnt)]\<rparr>
             else st3))"

text \<open>
  Lines 62-258: the function handed to \<^verbatim>\<open>debounce\<close>. The guard on the ref returns
  before anything is written. No statement of the outer \<^verbatim>\<open>try\<close> outside the inner one
  can throw on an array of strings, so its \<^verbatim>\<open>catch\<close> has no branch here; the \<^verbatim>\<open>finally\<close>
  block is the last update.
\<close>

definition handleFileDrop ::
  "'w dataService \<Rightarrow> string \<Rightarrow> (string \<Rightarrow> 'w \<Rightarrow> (thrown + unit) \<times> 'w) option \<Rightarrow>
   string list \<Rightarrow> 'w hook_state \<Rightarrow> 'w hook_state" where
  "handleFileDrop ds categoryId onFileAdded filePaths st =
    (if isProcessingRef st then st
     else
       (let st1 = st\<lparr>isDragOver := False, isProcessing := True, isProcessingRef := True\<rparr>;
            st2 = (if filePaths = []
                   then st1\<lparr>toasts := toasts st1 @ [NoFilesDetected]\<rparr>
                   else dropBatch ds categoryId onFileAdded filePaths st1)
        in st2\<lparr>isProcessing := False, isProcessingRef := False\<rparr>))"

section \<open>The manual path: \<^verbatim>\<open>BatchFileProcessor\<close>\<close>

datatype status = Pending | Processing | Success | Error

record file_item =
  id_f :: string
  path :: string
  name :: string
  isDirectory :: bool
  status :: status
  error :: "string option"
  iconData :: "string option"

text \<open>
  The React state of the component. \<open>progress\<close> is kept as the fraction whose
  percentage the component displays: \<^verbatim>\<open>setProgress(((i + 1) / files.length) * 100)\<close>
  is \<open>(i + 1, length files)\<close>, and \<^verbatim>\<open>setProgress(0)\<close> is \<open>(0, 1)\<close>.
\<close>

record 'w batch_state = "'w component" +
  files :: "file_item list"
  isPaused :: bool
  progress :: "nat \<times> nat"
  currentIndex :: nat

text \<open>
  Strings are lists of the code units up to U+00FF. \<^verbatim>\<open>String.prototype.trim\<close>
  removes white space and line terminators from both ends; among these code units they
  are tab, line feed, vertical tab, form feed, carriage return, space and the no-break
  space U+00A0.
\<close>

definition isWhiteSpace :: "char \<Rightarrow> bool" where
  "isWhiteSpace c =
     (c = CHR 0x09 \<or> c = CHR 0x0A \<or> c = CHR 0x0B \<or> c = CHR 0x0C \<or> c = CHR 0x0D \<or>
      c = CHR 0x20 \<or> c = CHR 0xA0)"

definition trim :: "string \<Rightarrow> string" where
  "trim s = rev (dropWhile isWhiteSpace (rev (dropWhile isWhiteSpace s)))"

text \<open>
  Lines 585-602. The identifier is \<^verbatim>\<open>Date.now().toString() + Math.random()\<close>, which the
  platform supplies: \<open>newId\<close> reads it from the world. The path is looked up as typed
  and stored trimmed.
\<close>

definition addFilePath ::
  "'w dataService \<Rightarrow> ('w \<Rightarrow> string \<times> 'w) \<Rightarrow> string \<Rightarrow> 'w batch_state \<Rightarrow> 'w batch_state" where
  "addFilePath ds newId p st =
    (if trim p = [] then st
     else
       (case getPathInfo ds p (world st) of
          (Inl e, w1) \<Rightarrow> st\<lparr>world := w1, toasts := toasts st @ [CannotGetPathInfo p]\<rparr>
        | (Inr pathInfo, w1) \<Rightarrow>
            (case newId w1 of
               (i, w2) \<Rightarrow>
                 st\<lparr>world := w2,
                    files := files st @
                      [\<lparr>id_f = i, path = trim p, name = file_name pathInfo,
                        isDirectory = is_directory pathInfo, status = Pending,
                        error = None, iconData = None\<rparr>]\<rparr>)))"

text \<open>Lines 617-633 and 744-746.\<close>

definition removeFile :: "string \<Rightarrow> 'w batch_state \<Rightarrow> 'w batch_state" where
  "removeFile i st = st\<lparr>files := filter (\<lambda>file. id_f file \<noteq> i) (files st)\<rparr>"

definition clearAll :: "'w batch_state \<Rightarrow> 'w batch_state" where
  "clearAll st = st\<lparr>files := [], progress := (0, 1), currentIndex := 0\<rparr>"

definition resetStatus :: "'w batch_state \<Rightarrow> 'w batch_state" where
  "resetStatus st =
     st\<lparr>files := map (\<lambda>file. file\<lparr>status := Pending, error := None\<rparr>) (files st),
        progress := (0, 1), currentIndex := 0\<rparr>"

definition togglePause :: "'w batch_state \<Rightarrow> 'w batch_state" where
  "togglePause st = st\<lparr>isPaused := \<not> isPaused st\<rparr>"

subsection \<open>\<^verbatim>\<open>processFile\<close>\<close>

text \<open>
  The messages of the two errors \<^verbatim>\<open>processFile\<close> throws itself and the message it
  records for a thrown value that is not an \<^verbatim>\<open>Error\<close>; English stands for the source's
  Chinese text.
\<close>

definition msg_path_invalid :: string where
  "msg_path_invalid = ''path invalid''"

definition msg_not_exists :: string where
  "msg_not_exists = ''file or directory does not exist''"

definition msg_unknown :: string where
  "msg_unknown = ''unknown error''"

fun errorMessage :: "thrown \<Rightarrow> string" where
  "errorMessage (JsError m) = m"
| "errorMessage NonError = msg_unknown"

text \<open>
  Lines 639-641: the first statement of \<^verbatim>\<open>processFile\<close>, which runs before the first
  \<^verbatim>\<open>await\<close>. The update is functional, so it applies to the list of the moment, and by
  identifier.
\<close>

definition processFile_begin :: "file_item \<Rightarrow> 'w batch_state \<Rightarrow> 'w batch_state" where
  "processFile_begin file st =
     st\<lparr>files := map (\<lambda>f. if id_f f = id_f file then f\<lparr>status := Processing\<rparr> else f)
                      (files st)\<rparr>"

text \<open>
  Lines 659-667: the icon. \<^verbatim>\<open>iconResult.icon_data\<close> on an empty result throws a
  \<^verbatim>\<open>TypeError\<close> inside the inner \<^verbatim>\<open>try\<close>, which the \<^verbatim>\<open>catch\<close> swallows as it does a
  rejected call.
\<close>

definition fileIconData ::
  "'w dataService \<Rightarrow> file_item \<Rightarrow> 'w \<Rightarrow> string option \<times> 'w" where
  "fileIconData ds file w =
     (case (if isDirectory file then getDirectoryIcon ds (path file) True w
            else getFileIcon ds (path file) True w) of
        (Inl e, w') \<Rightarrow> (None, w')
      | (Inr None, w') \<Rightarrow> (None, w')
      | (Inr (Some iconResult), w') \<Rightarrow> (Some (icon_data iconResult), w'))"

text \<open>
  Lines 643-681: the calls of the \<^verbatim>\<open>try\<close> block after the first statement. \<open>Inl\<close>
  is what the block throws, \<open>Inr\<close> the icon data it reaches its end with.
\<close>

definition processFile_try ::
  "'w dataService \<Rightarrow> string \<Rightarrow> file_item \<Rightarrow> 'w \<Rightarrow> (thrown + string option) \<times> 'w" where
  "processFile_try ds categoryId file w =
    (case (if isDirectory file then validateDirectoryPath ds (path file) w
           else validateFilePath ds (path file) w) of
       (Inl e, w1) \<Rightarrow> (Inl e, w1)
     | (Inr isValid, w1) \<Rightarrow>
    if \<not> isValid then (Inl (JsError msg_path_invalid), w1)
    else
    (case checkFileExists ds (path file) w1 of
       (Inl e, w2) \<Rightarrow> (Inl e, w2)
     | (Inr exists, w2) \<Rightarrow>
    if \<not> exists then (Inl (JsError msg_not_exists), w2)
    else
    (case fileIconData ds file w2 of
       (icon, w3) \<Rightarrow>
    (case createShortcut ds
            \<lparr>name_r = shortcutName (name file) (isDirectory file),
             file_path = path file, icon_path = icon, category_id = categoryId\<rparr> w3 of
       (Inl e, w4) \<Rightarrow> (Inl e, w4)
     | (Inr u, w4) \<Rightarrow> (Inr icon, w4)))))"

text \<open>
  Lines 683-698: the end of the \<^verbatim>\<open>try\<close> block and the \<^verbatim>\<open>catch\<close>, with the value
  \<^verbatim>\<open>processFile\<close> returns.
\<close>

definition processFile_rest ::
  "'w dataService \<Rightarrow> string \<Rightarrow> file_item \<Rightarrow> 'w batch_state \<Rightarrow> bool \<times> 'w batch_state" where
  "processFile_rest ds categoryId file st =
    (case processFile_try ds categoryId file (world st) of
       (Inr icon, w) \<Rightarrow>
         (True,
          st\<lparr>world := w,
             files := map (\<lambda>f. if id_f f = id_f file
                                then f\<lparr>status := Success, iconData := icon\<rparr> else f)
                          (files st)\<rparr>)
     | (Inl e, w) \<Rightarrow>
         (False,
          st\<lparr>world := w,
             files := map (\<lambda>f. if id_f f = id_f file
                                then f\<lparr>status := Error, error := Some (errorMessage e)\<rparr> else f)
                          (files st)\<rparr>))"

definition processFile ::
  "'w dataService \<Rightarrow> string \<Rightarrow> file_item \<Rightarrow> 'w batch_state \<Rightarrow> bool \<times> 'w batch_state" where
  "processFile ds categoryId file st =
     processFile_rest ds categoryId file (processFile_begin file st)"

subsection \<open>\<^verbatim>\<open>processBatch\<close>\<close>

text \<open>
  \<^verbatim>\<open>processBatch\<close> is an asynchronous function that the component creates anew on
  every render: inside one invocation \<^verbatim>\<open>files\<close>, \<^verbatim>\<open>currentIndex\<close> and \<^verbatim>\<open>isPaused\<close> are the
  constants of the render whose button was clicked, whatever the setters do later. A
  run records these captured values with the loop's own variables. The setters act on
  the state of the moment.

  A run is suspended inside \<^verbatim>\<open>processFile\<close> for the item at index \<open>i\<close> (\<open>InItem i\<close>:
  the item has been marked, the collaborators are being awaited) or in the pause of
  100 ms after it (\<open>InDelay i\<close>), or it has returned.
\<close>

datatype phase = InItem nat | InDelay nat | Finished

record run =
  files_c :: "file_item list"
  currentIndex_c :: nat
  isPaused_c :: bool
  phase :: phase
  tally :: counters

text \<open>
  Lines 732-740: after the loop. The test reads the captured \<^verbatim>\<open>currentIndex\<close>;
  \<^verbatim>\<open>files.length - 1\<close> is computed on numbers, hence on integers here.
\<close>

definition batchEnd ::
  "(nat \<Rightarrow> nat \<Rightarrow> 'w \<Rightarrow> 'w) option \<Rightarrow> run \<Rightarrow> 'w batch_state \<Rightarrow> 'w batch_state \<times> run" where
  "batchEnd onComplete r st =
    (let st1 = st\<lparr>isProcessing := False\<rparr>;
         sc = successCount (tally r);
         ec = errorCount (tally r)
     in (if int (currentIndex_c r) \<ge> int (length (files_c r)) - 1
         then (case onComplete of
                 None \<Rightarrow> st1\<lparr>toasts := toasts st1 @ [BatchDone sc ec]\<rparr>
               | Some callback \<Rightarrow>
                   st1\<lparr>toasts := toasts st1 @ [BatchDone sc ec],
                       world := callback sc ec (world st1)\<rparr>)
         else st1,
         r\<lparr>phase := Finished\<rparr>))"

text \<open>
  Lines 714-718: the head of the loop at index \<open>i\<close>, up to the first \<^verbatim>\<open>await\<close> of
  \<^verbatim>\<open>processFile\<close>. The item is read from the captured list.
\<close>

definition loopHead ::
  "(nat \<Rightarrow> nat \<Rightarrow> 'w \<Rightarrow> 'w) option \<Rightarrow> run \<Rightarrow> nat \<Rightarrow> 'w batch_state \<Rightarrow> 'w batch_state \<times> run" where
  "loopHead onComplete r i st =
    (if i < length (files_c r) \<and> \<not> isPaused_c r
     then (processFile_begin (files_c r ! i) (st\<lparr>currentIndex := i\<rparr>), r\<lparr>phase := InItem i\<rparr>)
     else batchEnd onComplete r st)"

text \<open>
  Lines 702-714: a click on the start button. The result is the state when the click
  handler returns to the event loop, and the run it leaves behind, if any.
\<close>

definition processBatch ::
  "(nat \<Rightarrow> nat \<Rightarrow> 'w \<Rightarrow> 'w) option \<Rightarrow> 'w batch_state \<Rightarrow> 'w batch_state \<times> run option" where
  "processBatch onComplete st =
    (if files st = [] then (st\<lparr>toasts := toasts st @ [PleaseAddFiles]\<rparr>, None)
     else
       (case loopHead onComplete
               \<lparr>files_c = files st, currentIndex_c = currentIndex st,
                isPaused_c = isPaused st, phase = Finished,
                tally = \<lparr>successCount = 0, errorCount = 0\<rparr>\<rparr>
               (currentIndex st)
               (st\<lparr>isProcessing := True, isPaused := False\<rparr>) of
          (st', r) \<Rightarrow> (st', Some r)))"

text \<open>
  Lines 718-730: a suspended run continues. From inside an item, the rest of
  \<^verbatim>\<open>processFile\<close>, the tally and the progress, up to the pause; from the pause, the
  next head of the loop. The head of the loop has established \<open>i < length\<close> for an
  item in progress.
\<close>

definition resumeBatch ::
  "'w dataService \<Rightarrow> string \<Rightarrow> (nat \<Rightarrow> nat \<Rightarrow> 'w \<Rightarrow> 'w) option \<Rightarrow>
   run \<Rightarrow> 'w batch_state \<Rightarrow> 'w batch_state \<times> run" where
  "resumeBatch ds categoryId onComplete r st =
    (case phase r of
       InItem i \<Rightarrow>
         (if i < length (files_c r)
          then (case processFile_rest ds categoryId (files_c r ! i) st of
                  (ok, st1) \<Rightarrow>
                    (st1\<lparr>progress := (i + 1, length (files_c r))\<rparr>,
                     r\<lparr>phase := InDelay i,
                       tally := (if ok
                                 then (tally r)\<lparr>successCount := successCount (tally r) + 1\<rparr>
                                 else (tally r)\<lparr>errorCount := errorCount (tally r) + 1\<rparr>)\<rparr>))
          else (st, r))
     | InDelay i \<Rightarrow> loopHead onComplete r (i + 1) st
     | Finished \<Rightarrow> (st, r))"

subsection \<open>The component as a transition system\<close>

text \<open>
  What can happen to a mounted component: the user acts on a control, or a suspended
  run continues. A control that is disabled or not rendered ignores the user; the
  conditions are those of the JSX (lines 784-861 and 900).
\<close>

datatype action =
    AddFilePath string
  | RemoveFile string
  | ClearAll
  | ResetStatus
  | Start
  | TogglePause
  | Resume nat

record 'w system =
  ui :: "'w batch_state"
  runs :: "run list"

fun enabled :: "action \<Rightarrow> 'w batch_state \<Rightarrow> bool" where
  "enabled (AddFilePath p) st = (\<not> isProcessing st)"
| "enabled (RemoveFile i) st = (\<not> isProcessing st)"
| "enabled ClearAll st = (\<not> isProcessing st)"
| "enabled ResetStatus st = (\<not> (isProcessing st \<or> files st = []))"
| "enabled Start st = (files st \<noteq> [] \<and> \<not> (isProcessing st \<and> \<not> isPaused st))"
| "enabled TogglePause st = (files st \<noteq> [] \<and> isProcessing st)"
| "enabled (Resume k) st = True"

fun perform ::
  "'w dataService \<Rightarrow> string \<Rightarrow> (nat \<Rightarrow> nat \<Rightarrow> 'w \<Rightarrow> 'w) option \<Rightarrow> ('w \<Rightarrow> string \<times> 'w) \<Rightarrow>
   action \<Rightarrow> 'w system \<Rightarrow> 'w system" where
  "perform ds categoryId onComplete newId (AddFilePath p) s =
     s\<lparr>ui := addFilePath ds newId p (ui s)\<rparr>"
| "perform ds categoryId onComplete newId (RemoveFile i) s = s\<lparr>ui := removeFile i (ui s)\<rparr>"
| "perform ds categoryId onComplete newId ClearAll s = s\<lparr>ui := clearAll (ui s)\<rparr>"
| "perform ds categoryId onComplete newId ResetStatus s = s\<lparr>ui := resetStatus (ui s)\<rparr>"
| "perform ds categoryId onComplete newId TogglePause s = s\<lparr>ui := togglePause (ui s)\<rparr>"
| "perform ds categoryId onComplete newId Start s =
     (case processBatch onComplete (ui s) of
        (st, None) \<Rightarrow> s\<lparr>ui := st\<rparr>
      | (st, Some r) \<Rightarrow> s\<lparr>ui := st, runs := runs s @ [r]\<rparr>)"
| "perform ds categoryId onComplete newId (Resume k) s =
     (if k < length (runs s)
      then (case resumeBatch ds categoryId onComplete (runs s ! k) (ui s) of
              (st, r) \<Rightarrow> s\<lparr>ui := st, runs := (runs s)[k := r]\<rparr>)
      else s)"

definition step ::
  "'w dataService \<Rightarrow> string \<Rightarrow> (nat \<Rightarrow> nat \<Rightarrow> 'w \<Rightarrow> 'w) option \<Rightarrow> ('w \<Rightarrow> string \<times> 'w) \<Rightarrow>
   action \<Rightarrow> 'w system \<Rightarrow> 'w system" where
  "step ds categoryId onComplete newId a s =
     (if enabled a (ui s) then perform ds categoryId onComplete newId a s else s)"

fun exec ::
  "'w dataService \<Rightarrow> string \<Rightarrow> (nat \<Rightarrow> nat \<Rightarrow> 'w \<Rightarrow> 'w) option \<Rightarrow> ('w \<Rightarrow> string \<times> 'w) \<Rightarrow>
   action list \<Rightarrow> 'w system \<Rightarrow> 'w system" where
  "exec ds categoryId onComplete newId [] s = s"
| "exec ds categoryId onComplete newId (a # as) s =
     exec ds categoryId onComplete newId as (step ds categoryId onComplete newId a s)"

text \<open>The component as mounted: the initial values of its five \<^verbatim>\<open>useState\<close> cells.\<close>

definition mounted :: "'w \<Rightarrow> 'w system" where
  "mounted w =
     \<lparr>ui = \<lparr>isProcessing = False, toasts = [], world = w, files = [], isPaused = False,
            progress = (0, 1), currentIndex = 0\<rparr>,
      runs = []\<rparr>"

section \<open>The debounce\<close>

text \<open>
  Lines 7-28. \<^verbatim>\<open>debounce(func, wait)\<close> makes a closure over \<^verbatim>\<open>func\<close>, \<^verbatim>\<open>wait\<close> and a
  variable \<^verbatim>\<open>timeout\<close> of its own, which starts as \<^verbatim>\<open>null\<close> and later holds the
  identifier of the timer the closure set last. The timers belong to the platform,
  not to a closure: each is an identifier, a due time, and the arguments and the
  function its callback captured. Identifiers are positive, so \<^verbatim>\<open>if (timeout)\<close> tests
  whether the closure ever set one. Time is counted in milliseconds.

  The record holds the platform's clock and timers and the closure in use: \<open>func\<close>,
  \<open>wait\<close> and \<open>timeout\<close> are those of the debounced function that is called at
  present. \<open>calls\<close> lists the arguments with which a timer has called its function,
  and \<open>target\<close> is the state these functions act on. A timer fires when it is due,
  and its function then runs to its end in one step.
\<close>

record ('a, 's) debounce =
  now :: nat
  func :: "'a \<Rightarrow> 's \<Rightarrow> 's"
  wait :: nat
  timeout :: "nat option"
  nextTimer :: nat
  pendingTimers :: "(nat \<times> nat \<times> 'a \<times> ('a \<Rightarrow> 's \<Rightarrow> 's)) list"
  calls :: "'a list"
  target :: 's

definition clearTimeout ::
  "nat \<Rightarrow> (nat \<times> nat \<times> 'a \<times> ('a \<Rightarrow> 's \<Rightarrow> 's)) list \<Rightarrow>
   (nat \<times> nat \<times> 'a \<times> ('a \<Rightarrow> 's \<Rightarrow> 's)) list" where
  "clearTimeout t timers = filter (\<lambda>(i, due, args, f). i \<noteq> t) timers"

text \<open>
  Lines 7-12: a new closure comes into use. Its \<^verbatim>\<open>timeout\<close> is \<^verbatim>\<open>null\<close>; the timers
  set through an earlier closure stay with the platform.
\<close>

definition debounce ::
  "('a \<Rightarrow> 's \<Rightarrow> 's) \<Rightarrow> nat \<Rightarrow> ('a, 's) debounce \<Rightarrow> ('a, 's) debounce" where
  "debounce f w d = d\<lparr>func := f, wait := w, timeout := None\<rparr>"

text \<open>Lines 13-27: a call of the closure in use, at the present time.\<close>

definition debounced :: "'a \<Rightarrow> ('a, 's) debounce \<Rightarrow> ('a, 's) debounce" where
  "debounced args d =
    (let timers = (case timeout d of
                     None \<Rightarrow> pendingTimers d
                   | Some t \<Rightarrow> clearTimeout t (pendingTimers d))
     in d\<lparr>timeout := Some (nextTimer d),
          nextTimer := nextTimer d + 1,
          pendingTimers := timers @ [(nextTimer d, now d + wait d, args, func d)]\<rparr>)"

text \<open>
  Time passes until \<open>t\<close>: the timers due by then fire in the order of their due
  times, each calling the function it captured with the arguments it captured.
\<close>

definition advance :: "nat \<Rightarrow> ('a, 's) debounce \<Rightarrow> ('a, 's) debounce" where
  "advance t d =
    (let fired = sort_key (\<lambda>(i, due, args, f). due)
                   (filter (\<lambda>(i, due, args, f). due \<le> t) (pendingTimers d))
     in d\<lparr>now := max (now d) t,
          pendingTimers := filter (\<lambda>(i, due, args, f). \<not> due \<le> t) (pendingTimers d),
          calls := calls d @ map (\<lambda>(i, due, args, f). args) fired,
          target := fold (\<lambda>(i, due, args, f). f args) fired (target d)\<rparr>)"

subsection \<open>The debounced drop handler of the hook\<close>






section \<open>A recording back end\<close>

text \<open>
  A concrete world for running the components: it records the shortcuts created and
  the calls of the two callbacks, and counts the identifiers handed out. In it every
  path is legal; the one path \<open>missing\<close> does not exist; \<open>dir\<close> is a directory;
  a file has no icon (the call rejects) and a directory an empty one; the name of a
  path is the path itself.
\<close>

record demo_world =
  created :: "create_shortcut_request list"
  added :: "string list"
  completed :: "(nat \<times> nat) list"
  handedOut :: nat

definition demoWorld :: demo_world where
  "demoWorld = \<lparr>created = [], added = [], completed = [], handedOut = 0\<rparr>"

definition demoService :: "demo_world dataService" where
  "demoService =
    \<lparr>getPathInfo = (\<lambda>p w. (Inr \<lparr>file_name = p, is_directory = (p = ''dir'')\<rparr>, w)),
     validateFilePath = (\<lambda>p w. (Inr True, w)),
     validateDirectoryPath = (\<lambda>p w. (Inr True, w)),
     checkFileExists = (\<lambda>p w. (Inr (p \<noteq> ''missing''), w)),
     getFileIcon = (\<lambda>p large w. (Inl (JsError ''no icon''), w)),
     getDirectoryIcon = (\<lambda>p large w. (Inr None, w)),
     createShortcut = (\<lambda>request w. (Inr (), w\<lparr>created := created w @ [request]\<rparr>))\<rparr>"

definition demoNewId :: "demo_world \<Rightarrow> string \<times> demo_world" where
  "demoNewId w = (replicate (handedOut w + 1) CHR ''i'', w\<lparr>handedOut := handedOut w + 1\<rparr>)"

definition demoOnComplete :: "nat \<Rightarrow> nat \<Rightarrow> demo_world \<Rightarrow> demo_world" where
  "demoOnComplete sc ec w = w\<lparr>completed := completed w @ [(sc, ec)]\<rparr>"

definition demoOnFileAdded :: "string \<Rightarrow> demo_world \<Rightarrow> (thrown + unit) \<times> demo_world" where
  "demoOnFileAdded p w = (Inr (), w\<lparr>added := added w @ [p]\<rparr>)"

definition throwingOnFileAdded :: "string \<Rightarrow> demo_world \<Rightarrow> (thrown + unit) \<times> demo_world" where
  "throwingOnFileAdded p w = (Inl (JsError ''refresh failed''), w\<lparr>added := added w @ [p]\<rparr>)"

definition demoHook :: "demo_world hook_state" where
  "demoHook =
     \<lparr>isProcessing = False, toasts = [], world = demoWorld,
      isDragOver = True, isProcessingRef = False, dragLog = []\<rparr>"

text \<open>The hook in the middle of a batch: the ref and the state say so.\<close>

definition busyHook :: "demo_world hook_state" where
  "busyHook = demoHook\<lparr>isProcessing := True, isProcessingRef := True\<rparr>"

text \<open>
  A session after a batch of two: the first item succeeded and carries icon data, the
  second failed and carries its message.
\<close>

definition finishedSession :: "demo_world batch_state" where
  "finishedSession =
     \<lparr>isProcessing = False, toasts = [], world = demoWorld,
      files =
        [\<lparr>id_f = ''i'', path = ''a.txt'', name = ''a.txt'', isDirectory = False,
          status = Success, error = None, iconData = Some ''icon''\<rparr>,
         \<lparr>id_f = ''ii'', path = ''missing'', name = ''missing'', isDirectory = False,
          status = Error, error = Some msg_not_exists, iconData = None\<rparr>],
      isPaused = False, progress = (2, 2), currentIndex = 1\<rparr>"


text \<open>A session with one file waiting, as \<^verbatim>\<open>addFilePath\<close> leaves it.\<close>

definition pendingItem :: file_item where
  "pendingItem =
     \<lparr>id_f = ''i'', path = ''a.txt'', name = ''a.txt'', isDirectory = False,
      status = Pending, error = None, iconData = None\<rparr>"

definition pendingSession :: "demo_world batch_state" where
  "pendingSession =
     \<lparr>isProcessing = False, toasts = [], world = demoWorld, files = [pendingItem],
      isPaused = False, progress = (0, 1), currentIndex = 0\<rparr>"

text \<open>
  The component mounted on the recording back end, with a completion callback, after
  a sequence of user actions and continuations.
\<close>

definition run_demo :: "action list \<Rightarrow> demo_world system" where
  "run_demo as =
     exec demoService ''cat'' (Some demoOnComplete) demoNewId as (mounted demoWorld)"

section \<open>Predicates of the statements\<close>

text \<open>
  The callback \<^verbatim>\<open>onFileAdded\<close> returns normally when it is absent or never throws.
\<close>

definition returnsNormally :: "(string \<Rightarrow> 'w \<Rightarrow> (thrown + unit) \<times> 'w) option \<Rightarrow> bool" where
  "returnsNormally onFileAdded =
     (case onFileAdded of
        None \<Rightarrow> True
      | Some callback \<Rightarrow> (\<forall>p w. fst (callback p w) = Inr ()))"

text \<open>
  Every timer that is pending was set by the closure in use, and last: it is the one
  \<^verbatim>\<open>timeout\<close> refers to. So it is when no timer is pending, and in the middle of a burst
  of calls of one closure.
\<close>

definition ownsTimers :: "('a, 's) debounce \<Rightarrow> bool" where
  "ownsTimers d = list_all (\<lambda>(i, due, args, f). timeout d = Some i) (pendingTimers d)"

section \<open>Properties of the shortcut name\<close>

lemma split_at_last_dot:
  assumes "CHR ''.'' \<in> set s"
  shows "s = drop_final_segment s @ CHR ''.'' # after_last_dot s"
proof -
  let ?P = "\<lambda>c. c \<noteq> CHR ''.''"
  from assms have ne: "dropWhile ?P (rev s) \<noteq> []" by (simp add: dropWhile_eq_Nil_conv)
  then have "hd (dropWhile ?P (rev s)) = CHR ''.''"
    using hd_dropWhile [of ?P "rev s"] by simp
  with ne obtain r where r: "dropWhile ?P (rev s) = CHR ''.'' # r"
    by (cases "dropWhile ?P (rev s)") auto
  have "rev s = takeWhile ?P (rev s) @ dropWhile ?P (rev s)" by simp
  then have "s = rev (dropWhile ?P (rev s)) @ rev (takeWhile ?P (rev s))"
    by (metis rev_append rev_rev_ident)
  then show ?thesis using r by (simp add: drop_final_segment_def after_last_dot_def)
qed

lemma after_last_dot_no_dot: "CHR ''.'' \<notin> set (after_last_dot s)"
  unfolding after_last_dot_def by (auto dest: set_takeWhileD)

lemma replace_extension_match:
  "ext \<noteq> [] \<Longrightarrow> CHR ''.'' \<notin> set ext \<Longrightarrow> CHR ''/'' \<notin> set ext \<Longrightarrow>
   replace_extension (stem @ CHR ''.'' # ext) = stem"
  by (induction stem) (auto simp: list_all_iff)

lemma replace_extension_no_dot:
  "CHR ''.'' \<notin> set s \<Longrightarrow> replace_extension s = s"
  by (induction s) auto

lemma replace_extension_no_match:
  "ext = [] \<or> CHR ''/'' \<in> set ext \<Longrightarrow> CHR ''.'' \<notin> set ext \<Longrightarrow>
   replace_extension (stem @ CHR ''.'' # ext) = stem @ CHR ''.'' # ext"
  by (induction stem) (auto simp: list_all_iff replace_extension_no_dot)

text \<open>
  C9, as amended. A directory's name and a file's name without a dot are used as they
  are. A file's name whose last dot is followed by at least one character, none of them
  a slash, loses its final extension segment: the last dot and the text after it. A
  file's name whose last dot is its last character, or is followed by text with a slash
  in it, is used as it is.
\<close>

theorem C9_shortcut_name:
  "(isDir \<or> CHR ''.'' \<notin> set fileName \<longrightarrow>
      shortcutName fileName isDir = fileName) \<and>
   (\<not> isDir \<and> CHR ''.'' \<in> set fileName \<and> after_last_dot fileName \<noteq> [] \<and>
    CHR ''/'' \<notin> set (after_last_dot fileName) \<longrightarrow>
      shortcutName fileName isDir = drop_final_segment fileName) \<and>
   (\<not> isDir \<and> CHR ''.'' \<in> set fileName \<and>
    (after_last_dot fileName = [] \<or> CHR ''/'' \<in> set (after_last_dot fileName)) \<longrightarrow>
      shortcutName fileName isDir = fileName)"
proof (intro conjI impI)
  assume "isDir \<or> CHR ''.'' \<notin> set fileName"
  then show "shortcutName fileName isDir = fileName"
    by (auto simp: shortcutName_def)
next
  assume a: "\<not> isDir \<and> CHR ''.'' \<in> set fileName \<and> after_last_dot fileName \<noteq> [] \<and>
    CHR ''/'' \<notin> set (after_last_dot fileName)"
  then have eq: "fileName = drop_final_segment fileName @ CHR ''.'' # after_last_dot fileName"
    using split_at_last_dot by blast
  have "replace_extension (drop_final_segment fileName @ CHR ''.'' # after_last_dot fileName)
          = drop_final_segment fileName"
    using a after_last_dot_no_dot by (intro replace_extension_match) auto
  with eq have "replace_extension fileName = drop_final_segment fileName" by simp
  with a show "shortcutName fileName isDir = drop_final_segment fileName"
    by (simp add: shortcutName_def)
next
  assume a: "\<not> isDir \<and> CHR ''.'' \<in> set fileName \<and>
    (after_last_dot fileName = [] \<or> CHR ''/'' \<in> set (after_last_dot fileName))"
  then have eq: "fileName = drop_final_segment fileName @ CHR ''.'' # after_last_dot fileName"
    using split_at_last_dot by blast
  have "replace_extension (drop_final_segment fileName @ CHR ''.'' # after_last_dot fileName)
          = drop_final_segment fileName @ CHR ''.'' # after_last_dot fileName"
    using a after_last_dot_no_dot by (intro replace_extension_no_match) auto
  with eq have "replace_extension fileName = fileName" by simp
  with a show "shortcutName fileName isDir = fileName"
    by (simp add: shortcutName_def)
qed

text \<open>C9 at four names: an extension, a directory, no dot, a trailing dot.\<close>

theorem C9_shortcut_name_witness:
  "shortcutName ''archive.tar.gz'' False = ''archive.tar'' \<and>
   shortcutName ''photos.2024'' True = ''photos.2024'' \<and>
   shortcutName ''README'' False = ''README'' \<and>
   shortcutName ''a.'' False = ''a.''"
  using C9_shortcut_name [of False "''archive.tar.gz''"]
    C9_shortcut_name [of True "''photos.2024''"]
    C9_shortcut_name [of False "''README''"]
    C9_shortcut_name [of False "''a.''"]
  by (simp add: after_last_dot_def drop_final_segment_def)

text \<open>
  C9 as stated fails at the file name \<open>a.\<close>: it contains a dot, and the name
  without its final extension segment is \<open>a\<close>, but the shortcut is named \<open>a.\<close>.
\<close>

theorem C9_trailing_dot_counterexample:
  "CHR ''.'' \<in> set ''a.'' \<and> shortcutName ''a.'' False \<noteq> drop_final_segment ''a.''"
  by (simp add: shortcutName_def drop_final_segment_def)

section \<open>Properties of the automatic path\<close>

lemma dropItemTry_frame:
  "dropItemTry ds categoryId onFileAdded filePath cnt st = (r, cnt', st') \<Longrightarrow>
   dragLog st' = dragLog st \<and> isDragOver st' = isDragOver st \<and>
   isProcessing st' = isProcessing st \<and> isProcessingRef st' = isProcessingRef st"
  unfolding dropItemTry_def
  by (auto split: prod.splits sum.splits if_splits option.splits)

lemma dropItem_dragLog:
  "dropItem ds categoryId onFileAdded filePath cnt st = (cnt', st') \<Longrightarrow>
   dragLog st' = dragLog st @ [ProcessingItem filePath]"
  unfolding dropItem_def Let_def
  by (auto split: prod.splits sum.splits if_splits dest!: dropItemTry_frame)

lemma dropItemTry_counts:
  "returnsNormally onFileAdded \<Longrightarrow>
   dropItemTry ds categoryId onFileAdded filePath cnt st = (r, cnt', st') \<Longrightarrow>
   (case r of
      Inl e \<Rightarrow> successCount cnt' = successCount cnt \<and> errorCount cnt' = errorCount cnt
    | Inr u \<Rightarrow> successCount cnt' + errorCount cnt' = successCount cnt + errorCount cnt + 1)"
  unfolding dropItemTry_def returnsNormally_def
  apply (auto split: prod.splits sum.splits if_splits option.splits)
  apply (metis fst_conv sum.distinct(1))+
  done

lemma dropItem_counts:
  "returnsNormally onFileAdded \<Longrightarrow>
   dropItem ds categoryId onFileAdded filePath cnt st = (cnt', st') \<Longrightarrow>
   successCount cnt' + errorCount cnt' = successCount cnt + errorCount cnt + 1"
  unfolding dropItem_def Let_def
  by (auto split: prod.splits sum.splits if_splits dest!: dropItemTry_counts)

lemma dropLoop_counts:
  "returnsNormally onFileAdded \<Longrightarrow>
   dropLoop ds categoryId onFileAdded filePaths cnt st = (cnt', st') \<Longrightarrow>
   successCount cnt' + errorCount cnt' = successCount cnt + errorCount cnt + length filePaths"
proof (induction filePaths arbitrary: cnt st)
  case Nil
  then show ?case by simp
next
  case (Cons filePath rest)
  obtain cnt1 st1 where one: "dropItem ds categoryId onFileAdded filePath cnt st = (cnt1, st1)"
    by (cases "dropItem ds categoryId onFileAdded filePath cnt st")
  with Cons.prems have "dropLoop ds categoryId onFileAdded rest cnt1 st1 = (cnt', st')"
    by simp
  with Cons.IH Cons.prems(1)
  have "successCount cnt' + errorCount cnt' = successCount cnt1 + errorCount cnt1 + length rest"
    by blast
  with dropItem_counts [OF Cons.prems(1) one] show ?case by simp
qed

lemma dropLoop_dragLog:
  "dropLoop ds categoryId onFileAdded filePaths cnt st = (cnt', st') \<Longrightarrow>
   dragLog st' = dragLog st @ map ProcessingItem filePaths"
proof (induction filePaths arbitrary: cnt st)
  case Nil
  then show ?case by simp
next
  case (Cons filePath rest)
  obtain cnt1 st1 where one: "dropItem ds categoryId onFileAdded filePath cnt st = (cnt1, st1)"
    by (cases "dropItem ds categoryId onFileAdded filePath cnt st")
  with Cons.prems have "dropLoop ds categoryId onFileAdded rest cnt1 st1 = (cnt', st')"
    by simp
  with Cons.IH have "dragLog st' = dragLog st1 @ map ProcessingItem rest" by blast
  with dropItem_dragLog [OF one] show ?case by simp
qed

text \<open>
  The callback the application hands to the hook calls an asynchronous function and
  does not await it, so it returns normally; so does no callback at all. Then an
  iteration of the loop adds one to exactly one of the two counters.
\<close>

lemma dropItem_one_counter:
  assumes "returnsNormally onFileAdded"
  shows "(successCount (fst (dropItem ds categoryId onFileAdded filePath cnt s)) = successCount cnt + 1 \<and>
          errorCount (fst (dropItem ds categoryId onFileAdded filePath cnt s)) = errorCount cnt) \<or>
         (successCount (fst (dropItem ds categoryId onFileAdded filePath cnt s)) = successCount cnt \<and>
          errorCount (fst (dropItem ds categoryId onFileAdded filePath cnt s)) = errorCount cnt + 1)"
proof (cases onFileAdded)
  case None
  then show ?thesis
    unfolding dropItem_def dropItemTry_def Let_def
    by (auto split: prod.splits sum.splits if_splits)
next
  case (Some callback)
  with assms have ok: "\<And>p w. fst (callback p w) = Inr ()"
    by (simp add: returnsNormally_def)
  have no: "\<And>p w e w'. callback p w \<noteq> (Inl e, w')"
    using ok by (metis fst_conv sum.distinct(1))
  show ?thesis
    unfolding dropItem_def dropItemTry_def Let_def Some
    by (auto split: prod.splits sum.splits if_splits simp: no)
qed

lemma dropLoop_foldl:
  "dropLoop ds categoryId onFileAdded filePaths cnt s =
     foldl (\<lambda>(c, s') filePath. dropItem ds categoryId onFileAdded filePath c s') (cnt, s) filePaths"
  by (induction filePaths arbitrary: cnt s) (auto split: prod.splits)

text \<open>
  C1. The callback is absent or returns normally, the array is not empty and the
  dispatch passes the guard. The loop is the left fold of its iteration over the
  array: the paths are taken in the order of the array, each from the counters and
  the state the one before left. Every iteration adds one to exactly one of the two
  counters and leaves the other. After the loop the two counters add up to the
  length of the array; the log has one entry for each path, in order, and then the
  totals; and the aggregate toasts are computed from these totals.
\<close>

theorem C1_one_counter_per_path:
  assumes "returnsNormally onFileAdded" and "filePaths \<noteq> []" and "\<not> isProcessingRef st"
  shows
    "dropLoop ds categoryId onFileAdded filePaths cnt s =
       foldl (\<lambda>(c, s') filePath. dropItem ds categoryId onFileAdded filePath c s') (cnt, s) filePaths \<and>
     ((successCount (fst (dropItem ds categoryId onFileAdded filePath cnt s)) = successCount cnt + 1 \<and>
       errorCount (fst (dropItem ds categoryId onFileAdded filePath cnt s)) = errorCount cnt) \<or>
      (successCount (fst (dropItem ds categoryId onFileAdded filePath cnt s)) = successCount cnt \<and>
       errorCount (fst (dropItem ds categoryId onFileAdded filePath cnt s)) = errorCount cnt + 1)) \<and>
     (case dropLoop ds categoryId onFileAdded filePaths \<lparr>successCount = 0, errorCount = 0\<rparr>
             (st\<lparr>isDragOver := False, isProcessing := True, isProcessingRef := True\<rparr>) of
        (totals, st2) \<Rightarrow>
          successCount totals + errorCount totals = length filePaths \<and>
          dragLog (handleFileDrop ds categoryId onFileAdded filePaths st) =
            dragLog st @ map ProcessingItem filePaths @
              [BatchFinished (successCount totals) (errorCount totals) (length filePaths)] \<and>
          toasts (handleFileDrop ds categoryId onFileAdded filePaths st) =
            toasts st2 @
              (if 0 < successCount totals then [AddedCount (successCount totals)] else []) @
              (if 0 < errorCount totals then [FailedCount (errorCount totals)] else []))"
proof -
  let ?st1 = "st\<lparr>isDragOver := False, isProcessing := True, isProcessingRef := True\<rparr>"
  obtain totals st2 where loop:
    "dropLoop ds categoryId onFileAdded filePaths \<lparr>successCount = 0, errorCount = 0\<rparr> ?st1 = (totals, st2)"
    by (cases "dropLoop ds categoryId onFileAdded filePaths \<lparr>successCount = 0, errorCount = 0\<rparr> ?st1")
  from dropLoop_counts [OF assms(1) loop]
  have sum: "successCount totals + errorCount totals = length filePaths" by simp
  from dropLoop_dragLog [OF loop]
  have log: "dragLog st2 = dragLog st @ map ProcessingItem filePaths" by simp
  have final_log: "dragLog (handleFileDrop ds categoryId onFileAdded filePaths st) =
          dragLog st @ map ProcessingItem filePaths @
            [BatchFinished (successCount totals) (errorCount totals) (length filePaths)]"
    using assms(2,3) loop log by (simp add: handleFileDrop_def dropBatch_def Let_def)
  have final_toasts: "toasts (handleFileDrop ds categoryId onFileAdded filePaths st) =
          toasts st2 @
            (if 0 < successCount totals then [AddedCount (successCount totals)] else []) @
            (if 0 < errorCount totals then [FailedCount (errorCount totals)] else [])"
    using assms(2,3) loop by (simp add: handleFileDrop_def dropBatch_def Let_def)
  show ?thesis
    using dropLoop_foldl [of ds categoryId onFileAdded filePaths cnt s]
      dropItem_one_counter [OF assms(1), of ds categoryId filePath cnt s]
      sum final_log final_toasts
    by (simp only: loop prod.case simp_thms)
qed

text \<open>C1 on a drop of a file, a path that does not exist and an empty path.\<close>

theorem C1_one_counter_per_path_witness:
  "returnsNormally (Some demoOnFileAdded) \<and> \<not> isProcessingRef demoHook \<and>
   dragLog (handleFileDrop demoService ''cat'' (Some demoOnFileAdded) [''a.txt'', ''missing'', ''''] demoHook) =
     [ProcessingItem ''a.txt'', ProcessingItem ''missing'', ProcessingItem '''',
      BatchFinished 1 2 3] \<and>
   toasts (handleFileDrop demoService ''cat'' (Some demoOnFileAdded) [''a.txt'', ''missing'', ''''] demoHook) =
     [NotExists False ''missing'', InvalidFilePath, AddedCount 1, FailedCount 2] \<and>
   added (world (handleFileDrop demoService ''cat'' (Some demoOnFileAdded) [''a.txt'', ''missing'', ''''] demoHook)) =
     [''a.txt'']"
proof -
  have h1: "returnsNormally (Some demoOnFileAdded)"
    by (simp add: returnsNormally_def demoOnFileAdded_def)
  have h2: "[''a.txt'', ''missing'', ''''] \<noteq> ([] :: string list)" by simp
  have h3: "\<not> isProcessingRef demoHook" by (simp add: demoHook_def)
  from C1_one_counter_per_path [OF h1 h2 h3, of demoService "''cat''"
      "\<lparr>successCount = 0, errorCount = 0\<rparr>" demoHook "''a.txt''"]
  show ?thesis
    using h1 h3
    by (simp add: handleFileDrop_def dropBatch_def dropItem_def dropItemTry_def hookIconPath_def
        demoService_def demoOnFileAdded_def demoHook_def demoWorld_def shortcutName_def Let_def)
qed

text \<open>
  What the assumption on the callback is for: if the callback throws, the \<^verbatim>\<open>catch\<close> of
  the iteration counts the path, already counted as a success, as an error too.
\<close>

lemma throwing_callback_counts_twice:
  "dragLog (handleFileDrop demoService ''cat'' (Some throwingOnFileAdded) [''a.txt''] demoHook) =
     [ProcessingItem ''a.txt'', BatchFinished 1 1 1]"
  by (simp add: handleFileDrop_def dropBatch_def dropItem_def dropItemTry_def hookIconPath_def
      demoService_def throwingOnFileAdded_def demoHook_def demoWorld_def shortcutName_def Let_def)

text \<open>
  C4: a dispatch that starts while the ref says busy returns the state as it found
  it: the flags, the toasts, the log and the world outside (no collaborator is called,
  no shortcut is created).
\<close>

theorem C4_busy_dispatch_discarded:
  "isProcessingRef st \<Longrightarrow> handleFileDrop ds categoryId onFileAdded filePaths st = st"
  by (simp add: handleFileDrop_def)

text \<open>C4 on the hook in the middle of a batch.\<close>

theorem C4_busy_dispatch_discarded_witness:
  "isProcessingRef busyHook \<and>
   handleFileDrop demoService ''cat'' (Some demoOnFileAdded) [''a.txt'', ''dir''] busyHook = busyHook"
proof -
  have busy: "isProcessingRef busyHook" by (simp add: busyHook_def)
  from C4_busy_dispatch_discarded [OF busy] busy show ?thesis by simp
qed

text \<open>
  C10, as amended: a dispatch that starts while the ref says idle ends with the ref
  and the \<^verbatim>\<open>isProcessing\<close> state false, whatever the collaborators and the callback return
  or throw.
\<close>

theorem C10_flags_reset:
  "\<not> isProcessingRef st \<Longrightarrow>
   \<not> isProcessingRef (handleFileDrop ds categoryId onFileAdded filePaths st) \<and>
   \<not> isProcessing (handleFileDrop ds categoryId onFileAdded filePaths st)"
  by (simp add: handleFileDrop_def Let_def)

text \<open>C10 on the idle hook, with a callback that throws and a path that does not exist.\<close>

theorem C10_flags_reset_witness:
  "\<not> isProcessingRef demoHook \<and>
   \<not> isProcessingRef (handleFileDrop demoService ''cat'' (Some throwingOnFileAdded) [''a.txt'', ''missing''] demoHook) \<and>
   \<not> isProcessing (handleFileDrop demoService ''cat'' (Some throwingOnFileAdded) [''a.txt'', ''missing''] demoHook)"
proof -
  have idle: "\<not> isProcessingRef demoHook" by (simp add: demoHook_def)
  from C10_flags_reset [OF idle] idle show ?thesis by simp
qed

text \<open>
  C10 as stated fails for a dispatch that starts while the ref says busy: the guard
  returns before the \<^verbatim>\<open>try\<close>, and the dispatch ends with both flags still true.
\<close>

theorem C10_discarded_dispatch_counterexample:
  "isProcessingRef (handleFileDrop demoService ''cat'' None [''a.txt''] busyHook) \<and>
   isProcessing (handleFileDrop demoService ''cat'' None [''a.txt''] busyHook)"
  by (simp add: handleFileDrop_def busyHook_def)

section \<open>Properties of the debounce\<close>

text \<open>
  When every pending timer is the one the closure in use set last, a call of the
  closure clears them all.
\<close>

lemma owned_timers_cleared:
  assumes "ownsTimers d"
  shows "(case timeout d of None \<Rightarrow> pendingTimers d
          | Some t \<Rightarrow> clearTimeout t (pendingTimers d)) = []"
proof (cases "timeout d")
  case None
  with assms have "\<forall>x\<in>set (pendingTimers d). False"
    by (auto simp: ownsTimers_def list_all_iff)
  then have "pendingTimers d = []" by (cases "pendingTimers d") auto
  with None show ?thesis by simp
next
  case (Some t)
  with assms have "\<forall>x\<in>set (pendingTimers d). fst x = t"
    by (auto simp: ownsTimers_def list_all_iff)
  then have "filter (\<lambda>(i, due, args, f). i \<noteq> t) (pendingTimers d) = []"
    by (auto simp: filter_empty_conv)
  with Some show ?thesis by (simp add: clearTimeout_def)
qed

lemma debounced_owned:
  assumes "ownsTimers d"
  shows "debounced p d =
           d\<lparr>timeout := Some (nextTimer d), nextTimer := nextTimer d + 1,
             pendingTimers := [(nextTimer d, now d + wait d, p, func d)]\<rparr>"
  using owned_timers_cleared [OF assms] by (simp add: debounced_def)

lemma debounce_last_wins:
  assumes "ownsTimers d" and "now d \<le> t2" and "t2 < now d + wait d" and "t2 + wait d \<le> t3"
  shows "advance t3 (debounced p2 (advance t2 (debounced p1 d))) =
           d\<lparr>now := t3, timeout := Some (nextTimer d + 1), nextTimer := nextTimer d + 2,
             pendingTimers := [], calls := calls d @ [p2], target := func d p2 (target d)\<rparr>"
proof -
  have d2: "advance t2 (debounced p1 d) =
              d\<lparr>now := t2, timeout := Some (nextTimer d), nextTimer := nextTimer d + 1,
                pendingTimers := [(nextTimer d, now d + wait d, p1, func d)]\<rparr>"
    unfolding debounced_owned [OF assms(1)] using assms(2,3) by (simp add: advance_def max_def)
  have d3: "debounced p2 (advance t2 (debounced p1 d)) =
              d\<lparr>now := t2, timeout := Some (nextTimer d + 1), nextTimer := nextTimer d + 2,
                pendingTimers := [(nextTimer d + 1, t2 + wait d, p2, func d)]\<rparr>"
    unfolding d2 by (simp add: debounced_def clearTimeout_def)
  show ?thesis
    unfolding d3 using assms(2,4) by (simp add: advance_def max_def)
qed




section \<open>Properties of the reset\<close>

text \<open>
  C7, as amended: after \<^verbatim>\<open>resetStatus\<close> every item is pending and has no error, and
  \<^verbatim>\<open>currentIndex\<close> is 0; the icon data and the identifiers of the items are what they
  were.
\<close>

theorem C7_resetStatus:
  "list_all (\<lambda>file. status file = Pending \<and> error file = None) (files (resetStatus st)) \<and>
   currentIndex (resetStatus st) = 0 \<and>
   map iconData (files (resetStatus st)) = map iconData (files st) \<and>
   map id_f (files (resetStatus st)) = map id_f (files st)"
  by (simp add: resetStatus_def list_all_iff comp_def)

text \<open>C7 on the session with one successful and one failed item.\<close>

theorem C7_resetStatus_witness:
  "map status (files (resetStatus finishedSession)) = [Pending, Pending] \<and>
   map error (files (resetStatus finishedSession)) = [None, None] \<and>
   currentIndex (resetStatus finishedSession) = 0 \<and>
   map iconData (files (resetStatus finishedSession)) = [Some ''icon'', None]"
  using C7_resetStatus [of finishedSession]
  by (simp add: resetStatus_def finishedSession_def)

text \<open>
  C7 as stated fails on that session: the first item is successful with icon data,
  and after \<^verbatim>\<open>resetStatus\<close> its icon data is still there.
\<close>

theorem C7_icon_kept_counterexample:
  "status (files finishedSession ! 0) = Success \<and>
   iconData (files (resetStatus finishedSession) ! 0) = Some ''icon''"
  by (simp add: resetStatus_def finishedSession_def)

section \<open>Icon failures\<close>

lemma fileIconData_failure:
  assumes "(if isDirectory item then getDirectoryIcon ds (path item) True w
            else getFileIcon ds (path item) True w) = (r, w')"
    and "r = Inr None \<or> (\<exists>e. r = Inl e)"
  shows "fileIconData ds item w = (None, w')"
  using assms by (auto simp: fileIconData_def)

lemma hookIconPath_failure:
  assumes "(if dir then getDirectoryIcon ds filePath True w
            else getFileIcon ds filePath True w) = (r, w')"
    and "r = Inr None \<or> (\<exists>e. r = Inl e)"
  shows "hookIconPath ds dir filePath w = (None, w')"
  using assms by (auto simp: hookIconPath_def)

lemma mark_then_finish:
  "map (\<lambda>f. if id_f f = i then f\<lparr>status := Success, iconData := icon\<rparr> else f)
     (map (\<lambda>f. if id_f f = i then f\<lparr>status := Processing\<rparr> else f) fs) =
   map (\<lambda>f. if id_f f = i then f\<lparr>status := Success, iconData := icon\<rparr> else f) fs"
  by (induction fs) auto

lemma processFile_icon_failure:
  assumes valid: "(if isDirectory item then validateDirectoryPath ds (path item) (world st)
                   else validateFilePath ds (path item) (world st)) = (Inr True, w1)"
    and exists: "checkFileExists ds (path item) w1 = (Inr True, w2)"
    and icon: "(if isDirectory item then getDirectoryIcon ds (path item) True w2
                else getFileIcon ds (path item) True w2) = (r, w3)"
    and failed: "r = Inr None \<or> (\<exists>e. r = Inl e)"
    and created: "createShortcut ds
                    \<lparr>name_r = shortcutName (name item) (isDirectory item), file_path = path item,
                     icon_path = None, category_id = categoryId\<rparr> w3 = (Inr (), w4)"
  shows "processFile ds categoryId item st =
           (True,
            st\<lparr>world := w4,
               files := map (\<lambda>f. if id_f f = id_f item
                                  then f\<lparr>status := Success, iconData := None\<rparr> else f)
                            (files st)\<rparr>)"
proof -
  have "processFile_try ds categoryId item (world st) = (Inr None, w4)"
    unfolding processFile_try_def
    using valid exists created fileIconData_failure [OF icon failed] by simp
  then show ?thesis
    by (simp add: processFile_def processFile_rest_def processFile_begin_def mark_then_finish)
qed

lemma dropItem_icon_failure:
  assumes nonempty: "filePath \<noteq> []"
    and info: "getPathInfo ds filePath (world st) = (Inr pathInfo, w0)"
    and valid: "(if is_directory pathInfo then validateDirectoryPath ds filePath w0
                 else validateFilePath ds filePath w0) = (Inr True, w1)"
    and exists: "checkFileExists ds filePath w1 = (Inr True, w2)"
    and icon: "(if is_directory pathInfo then getDirectoryIcon ds filePath True w2
                else getFileIcon ds filePath True w2) = (r, w3)"
    and failed: "r = Inr None \<or> (\<exists>e. r = Inl e)"
    and created: "createShortcut ds
                    \<lparr>name_r = shortcutName (file_name pathInfo) (is_directory pathInfo),
                     file_path = filePath, icon_path = None, category_id = categoryId\<rparr> w3 =
                  (Inr (), w4)"
  shows "dropItem ds categoryId onFileAdded filePath cnt st =
           (case onFileAdded of
              None \<Rightarrow>
                (cnt\<lparr>successCount := successCount cnt + 1\<rparr>,
                 st\<lparr>dragLog := dragLog st @ [ProcessingItem filePath], world := w4\<rparr>)
            | Some callback \<Rightarrow>
                (case callback filePath w4 of
                   (Inr u, w5) \<Rightarrow>
                     (cnt\<lparr>successCount := successCount cnt + 1\<rparr>,
                      st\<lparr>dragLog := dragLog st @ [ProcessingItem filePath], world := w5\<rparr>)
                 | (Inl e, w5) \<Rightarrow>
                     (cnt\<lparr>successCount := successCount cnt + 1, errorCount := errorCount cnt + 1\<rparr>,
                      st\<lparr>dragLog := dragLog st @ [ProcessingItem filePath], world := w5,
                         toasts := toasts st @ [AddFailed filePath]\<rparr>)))"
  unfolding dropItem_def dropItemTry_def Let_def
  using nonempty info valid exists created hookIconPath_failure [OF icon failed]
  by (auto split: option.splits prod.splits sum.splits)

text \<open>
  C8. Manual path: when validation, the existence check and the creation succeed and
  the icon call rejects or returns nothing, \<^verbatim>\<open>processFile\<close> returns true and every item
  with the identifier ends successful with no icon data. Automatic path: under the
  same conditions the iteration creates the shortcut without an icon, counts the path
  as a success and calls the callback, if there is one; nothing else changes but the
  log and the world, and an error is counted only if the callback itself throws.
\<close>

theorem C8_icon_failure_isolated:
  "((if isDirectory item then validateDirectoryPath ds (path item) (world st)
     else validateFilePath ds (path item) (world st)) = (Inr True, w1) \<and>
    checkFileExists ds (path item) w1 = (Inr True, w2) \<and>
    (if isDirectory item then getDirectoryIcon ds (path item) True w2
     else getFileIcon ds (path item) True w2) = (r, w3) \<and>
    (r = Inr None \<or> (\<exists>e. r = Inl e)) \<and>
    createShortcut ds
      \<lparr>name_r = shortcutName (name item) (isDirectory item), file_path = path item,
       icon_path = None, category_id = categoryId\<rparr> w3 = (Inr (), w4)
    \<longrightarrow>
    processFile ds categoryId item st =
      (True,
       st\<lparr>world := w4,
          files := map (\<lambda>f. if id_f f = id_f item
                             then f\<lparr>status := Success, iconData := None\<rparr> else f)
                       (files st)\<rparr>))
   \<and>
   (filePath \<noteq> [] \<and>
    getPathInfo ds filePath (world hst) = (Inr pathInfo, v0) \<and>
    (if is_directory pathInfo then validateDirectoryPath ds filePath v0
     else validateFilePath ds filePath v0) = (Inr True, v1) \<and>
    checkFileExists ds filePath v1 = (Inr True, v2) \<and>
    (if is_directory pathInfo then getDirectoryIcon ds filePath True v2
     else getFileIcon ds filePath True v2) = (q, v3) \<and>
    (q = Inr None \<or> (\<exists>e. q = Inl e)) \<and>
    createShortcut ds
      \<lparr>name_r = shortcutName (file_name pathInfo) (is_directory pathInfo),
       file_path = filePath, icon_path = None, category_id = categoryId\<rparr> v3 = (Inr (), v4)
    \<longrightarrow>
    dropItem ds categoryId onFileAdded filePath cnt hst =
      (case onFileAdded of
         None \<Rightarrow>
           (cnt\<lparr>successCount := successCount cnt + 1\<rparr>,
            hst\<lparr>dragLog := dragLog hst @ [ProcessingItem filePath], world := v4\<rparr>)
       | Some callback \<Rightarrow>
           (case callback filePath v4 of
              (Inr u, v5) \<Rightarrow>
                (cnt\<lparr>successCount := successCount cnt + 1\<rparr>,
                 hst\<lparr>dragLog := dragLog hst @ [ProcessingItem filePath], world := v5\<rparr>)
            | (Inl e, v5) \<Rightarrow>
                (cnt\<lparr>successCount := successCount cnt + 1, errorCount := errorCount cnt + 1\<rparr>,
                 hst\<lparr>dragLog := dragLog hst @ [ProcessingItem filePath], world := v5,
                     toasts := toasts hst @ [AddFailed filePath]\<rparr>))))"
  using processFile_icon_failure [of item ds st w1 w2 r w3 categoryId w4]
    dropItem_icon_failure [of filePath ds hst pathInfo v0 v1 v2 q v3 categoryId v4 onFileAdded cnt]
  by blast

text \<open>C8 on a file whose icon call rejects and, with a callback, a directory whose icon is empty.\<close>

theorem C8_icon_failure_isolated_witness:
  "processFile demoService ''cat'' pendingItem pendingSession =
     (True,
      pendingSession
        \<lparr>world := demoWorld\<lparr>created :=
            [\<lparr>name_r = ''a'', file_path = ''a.txt'', icon_path = None, category_id = ''cat''\<rparr>]\<rparr>,
         files := [pendingItem\<lparr>status := Success, iconData := None\<rparr>]\<rparr>) \<and>
   dropItem demoService ''cat'' (Some demoOnFileAdded) ''dir''
       \<lparr>successCount = 0, errorCount = 0\<rparr> demoHook =
     (\<lparr>successCount = 1, errorCount = 0\<rparr>,
      demoHook
        \<lparr>dragLog := [ProcessingItem ''dir''],
         world := demoWorld\<lparr>created :=
            [\<lparr>name_r = ''dir'', file_path = ''dir'', icon_path = None, category_id = ''cat''\<rparr>],
            added := [''dir'']\<rparr>\<rparr>)"
  using C8_icon_failure_isolated
    [where item = pendingItem and ds = demoService and st = pendingSession
       and ?w1.0 = demoWorld and ?w2.0 = demoWorld and r = "Inl (JsError ''no icon'')"
       and ?w3.0 = demoWorld and categoryId = "''cat''"
       and ?w4.0 = "demoWorld\<lparr>created :=
            [\<lparr>name_r = ''a'', file_path = ''a.txt'', icon_path = None, category_id = ''cat''\<rparr>]\<rparr>"
       and filePath = "''dir''" and hst = demoHook
       and pathInfo = "\<lparr>file_name = ''dir'', is_directory = True\<rparr>"
       and ?v0.0 = demoWorld and ?v1.0 = demoWorld and ?v2.0 = demoWorld and q = "Inr None"
       and ?v3.0 = demoWorld
       and ?v4.0 = "demoWorld\<lparr>created :=
            [\<lparr>name_r = ''dir'', file_path = ''dir'', icon_path = None, category_id = ''cat''\<rparr>]\<rparr>"
       and onFileAdded = "Some demoOnFileAdded" and cnt = "\<lparr>successCount = 0, errorCount = 0\<rparr>"]
  by (simp add: demoService_def pendingItem_def pendingSession_def demoHook_def demoWorld_def
      demoOnFileAdded_def shortcutName_def)

section \<open>Runs of the manual controller\<close>

text \<open>
  What a run captured at the click stays what it is, and the test after the loop
  calls the completion callback exactly when the captured index is at least the last
  one.
\<close>

lemma batchEnd_notifies:
  "world (fst (batchEnd (Some callback) r st)) =
     (if int (length (files_c r)) - 1 \<le> int (currentIndex_c r)
      then callback (successCount (tally r)) (errorCount (tally r)) (world st)
      else world st)"
  by (simp add: batchEnd_def Let_def)

lemma loopHead_keeps_capture:
  "loopHead onComplete r i st = (st', r') \<Longrightarrow>
   files_c r' = files_c r \<and> currentIndex_c r' = currentIndex_c r \<and> isPaused_c r' = isPaused_c r"
  by (auto simp: loopHead_def batchEnd_def Let_def split: if_splits)

lemma resumeBatch_keeps_capture:
  "resumeBatch ds categoryId onComplete r st = (st', r') \<Longrightarrow>
   files_c r' = files_c r \<and> currentIndex_c r' = currentIndex_c r \<and> isPaused_c r' = isPaused_c r"
  by (auto simp: resumeBatch_def split: phase.splits if_splits prod.splits
      dest: loopHead_keeps_capture)

lemma processBatch_captures:
  "processBatch onComplete st = (st', Some r) \<Longrightarrow>
   files_c r = files st \<and> currentIndex_c r = currentIndex st \<and> isPaused_c r = isPaused st"
  by (auto simp: processBatch_def split: if_splits prod.splits dest: loopHead_keeps_capture)

text \<open>
  The pause flag of the state has no part in how a suspended run continues: setting
  it before a continuation and setting it after come to the same.
\<close>

lemma loopHead_ignores_pause:
  "loopHead onComplete r i (st\<lparr>isPaused := b\<rparr>) =
     (case loopHead onComplete r i st of (st', r') \<Rightarrow> (st'\<lparr>isPaused := b\<rparr>, r'))"
  by (simp add: loopHead_def batchEnd_def processFile_begin_def Let_def split: option.splits)

lemma resumeBatch_ignores_pause:
  "resumeBatch ds categoryId onComplete r (st\<lparr>isPaused := b\<rparr>) =
     (case resumeBatch ds categoryId onComplete r st of (st', r') \<Rightarrow> (st'\<lparr>isPaused := b\<rparr>, r'))"
  by (simp add: resumeBatch_def loopHead_ignores_pause processFile_rest_def
      split: phase.splits prod.splits sum.splits)

text \<open>The equations that evaluate a sequence of actions on the recording back end.\<close>

lemmas run_defs =
  step_def addFilePath_def removeFile_def clearAll_def resetStatus_def togglePause_def
  processBatch_def loopHead_def batchEnd_def resumeBatch_def processFile_begin_def
  processFile_rest_def processFile_try_def fileIconData_def shortcutName_def trim_def
  isWhiteSpace_def mounted_def demoService_def demoNewId_def demoOnComplete_def demoWorld_def
  msg_not_exists_def msg_path_invalid_def Let_def

text \<open>
  C2 at a list of two: both files are added, start is clicked and the run continues
  to its end. Both items are successful and the run has returned, but \<^verbatim>\<open>onComplete\<close>
  was never called and no toast was shown: the test after the loop reads the
  \<^verbatim>\<open>currentIndex\<close> captured at the click, which is 0.
\<close>

theorem C2_no_completion_for_two_items:
  "map status (files (ui (run_demo
      [AddFilePath ''a.txt'', AddFilePath ''b.txt'', Start, Resume 0, Resume 0, Resume 0, Resume 0]))) =
     [Success, Success] \<and>
   map phase (runs (run_demo
      [AddFilePath ''a.txt'', AddFilePath ''b.txt'', Start, Resume 0, Resume 0, Resume 0, Resume 0])) =
     [Finished] \<and>
   completed (world (ui (run_demo
      [AddFilePath ''a.txt'', AddFilePath ''b.txt'', Start, Resume 0, Resume 0, Resume 0, Resume 0]))) = [] \<and>
   toasts (ui (run_demo
      [AddFilePath ''a.txt'', AddFilePath ''b.txt'', Start, Resume 0, Resume 0, Resume 0, Resume 0])) = []"
  by (simp add: run_demo_def run_defs)

text \<open>
  C5 at a list of two: after the batch both items are successful, the run has
  returned and the start button is enabled (no completion was signalled, so the
  component is still on screen); a second click on start puts the second item back
  to processing, and its shortcut is created a second time.
\<close>

theorem C5_second_start_reprocesses:
  "map status (files (ui (run_demo
      [AddFilePath ''a.txt'', AddFilePath ''b.txt'', Start, Resume 0, Resume 0, Resume 0,
       Resume 0]))) = [Success, Success] \<and>
   map phase (runs (run_demo
      [AddFilePath ''a.txt'', AddFilePath ''b.txt'', Start, Resume 0, Resume 0, Resume 0,
       Resume 0])) = [Finished] \<and>
   enabled Start (ui (run_demo
      [AddFilePath ''a.txt'', AddFilePath ''b.txt'', Start, Resume 0, Resume 0, Resume 0,
       Resume 0])) \<and>
   map status (files (ui (run_demo
      [AddFilePath ''a.txt'', AddFilePath ''b.txt'', Start, Resume 0, Resume 0, Resume 0,
       Resume 0, Start]))) = [Success, Processing] \<and>
   map file_path (created (world (ui (run_demo
      [AddFilePath ''a.txt'', AddFilePath ''b.txt'', Start, Resume 0, Resume 0, Resume 0,
       Resume 0, Start, Resume 1])))) = [''a.txt'', ''b.txt'', ''b.txt'']"
  by (simp add: run_demo_def run_defs)

text \<open>
  C6 at a list of two. After the first item the user pauses: the flag is set and the
  second item is pending. The suspended run continues all the same and takes the
  second item. A click on start while the flag is set scans nothing and returns; one
  more click scans from index 0 and puts the first item, already successful, back to
  processing.
\<close>

theorem C6_pause_does_not_halt:
  "map status (files (ui (run_demo
      [AddFilePath ''x'', AddFilePath ''y'', Start, Resume 0, TogglePause]))) = [Success, Pending] \<and>
   isPaused (ui (run_demo
      [AddFilePath ''x'', AddFilePath ''y'', Start, Resume 0, TogglePause])) \<and>
   map status (files (ui (run_demo
      [AddFilePath ''x'', AddFilePath ''y'', Start, Resume 0, TogglePause, Resume 0]))) =
     [Success, Processing] \<and>
   map status (files (ui (run_demo
      [AddFilePath ''x'', AddFilePath ''y'', Start, Resume 0, TogglePause, Start]))) =
     [Success, Pending] \<and>
   map phase (runs (run_demo
      [AddFilePath ''x'', AddFilePath ''y'', Start, Resume 0, TogglePause, Start])) =
     [InDelay 0, Finished] \<and>
   map status (files (ui (run_demo
      [AddFilePath ''x'', AddFilePath ''y'', Start, Resume 0, TogglePause, Start, Start]))) =
     [Processing, Pending]"
  by (simp add: run_demo_def run_defs)

end
